theory Spec2Isabelle
  imports Complex_Main
begin

section \<open>Python values and errors\<close>

text \<open>
  The values that travel through zoltpy are what \<^verbatim>\<open>json.loads\<close> /
  \<^verbatim>\<open>response.json()\<close> produce: \<^verbatim>\<open>None\<close>, booleans, ints, floats,
  strings, lists and dicts with string keys. A dict is an association list in insertion
  order (lookup takes the first binding of a key; a Python dict has one binding per key).
  Strings are byte strings here; the floats \<^verbatim>\<open>nan\<close> and \<^verbatim>\<open>inf\<close> are
  outside the model.
\<close>

datatype json =
    JNull
  | JBool bool
  | JInt int
  | JFloat real
  | JStr string
  | JList "json list"
  | JDict "(string \<times> json) list"

text \<open>
  Every \<^verbatim>\<open>raise RuntimeError(f"...")\<close> of the source is one constructor of
  \<open>runtime_error\<close>; the values interpolated into the message are its arguments.
\<close>

datatype runtime_error =
    NoPredictionsSection
      \<comment> \<open>"no predictions section found in json\_io\_dict"\<close>
  | InvalidPredictionClass json
      \<comment> \<open>"invalid prediction\_dict class: \{prediction\_class\}"\<close>
  | NoSession
      \<comment> \<open>"json\_for\_uri(): no session"\<close>
  | JsonStatusNot200 int string
      \<comment> \<open>"json\_for\_uri(): status code was not 200. status\_code=... text=..."\<close>
  | TokenStatusNot200 int string
      \<comment> \<open>"get\_token(): status code was not 200. status\_code=... text=..."\<close>
  | WrongKeys "string set" "string set"
      \<comment> \<open>"Wrong keys in 'model\_config'. expected=..., actual=..."\<close>
  | ModelStatusNot200 int string
      \<comment> \<open>"status\_code was not 200. status\_code=..., text=..."\<close>

datatype error =
    RuntimeError runtime_error
  | KeyError json
  | TypeError
  | ValueError
  | IndexError
  | AttributeError
  | Unmodelled
      \<comment> \<open>the source goes on with a step that is not rendered here: \<^verbatim>\<open>str()\<close> of a
          float, list or dict, or \<^verbatim>\<open>int()\<close> of a string with a byte outside ASCII\<close>

definition bind :: "error + 'a \<Rightarrow> ('a \<Rightarrow> error + 'b) \<Rightarrow> error + 'b" where
  "bind m f = (case m of Inl e \<Rightarrow> Inl e | Inr x \<Rightarrow> f x)"

text \<open>\<^verbatim>\<open>bool(x)\<close>, as used by \<^verbatim>\<open>if x\<close> and \<^verbatim>\<open>not x\<close>.\<close>

fun truthy :: "json \<Rightarrow> bool" where
  "truthy JNull = False"
| "truthy (JBool b) = b"
| "truthy (JInt n) = (n \<noteq> 0)"
| "truthy (JFloat x) = (x \<noteq> 0)"
| "truthy (JStr s) = (s \<noteq> [])"
| "truthy (JList xs) = (xs \<noteq> [])"
| "truthy (JDict d) = (d \<noteq> [])"

text \<open>\<^verbatim>\<open>x[k]\<close> for a string literal \<open>k\<close>: only a dict can be indexed by a string.\<close>

fun getitem :: "json \<Rightarrow> string \<Rightarrow> error + json" where
  "getitem (JDict d) k = (case map_of d k of None \<Rightarrow> Inl (KeyError (JStr k)) | Some v \<Rightarrow> Inr v)"
| "getitem _ k = Inl TypeError"

text \<open>\<^verbatim>\<open>iter(x)\<close>, run to the end: a list yields its elements, a dict its keys, a
  string its characters; anything else is not iterable.\<close>

fun py_iter :: "json \<Rightarrow> error + json list" where
  "py_iter (JList xs) = Inr xs"
| "py_iter (JDict d) = Inr (map (\<lambda>kv. JStr (fst kv)) d)"
| "py_iter (JStr s) = Inr (map (\<lambda>c. JStr [c]) s)"
| "py_iter _ = Inl TypeError"

fun substring :: "string \<Rightarrow> string \<Rightarrow> bool" where
  "substring xs [] = (xs = [])"
| "substring xs (y # ys) = (take (length xs) (y # ys) = xs \<or> substring xs ys)"

text \<open>\<^verbatim>\<open>k in x\<close> for a string literal \<open>k\<close>.\<close>

fun contains :: "string \<Rightarrow> json \<Rightarrow> error + bool" where
  "contains k (JDict d) = Inr (k \<in> fst ` set d)"
| "contains k (JList xs) = Inr (JStr k \<in> set xs)"
| "contains k (JStr s) = Inr (substring k s)"
| "contains k _ = Inl TypeError"


section \<open>csv\_io: rows of a JSON IO dict\<close>

definition CSV_HEADER :: "json list" where
  "CSV_HEADER = map JStr [''unit'', ''target'', ''class'', ''value'', ''cat'', ''prob'',
     ''sample'', ''quantile'', ''family'', ''param1'', ''param2'', ''param3'']"

text \<open>
  Modelled from the spec: the four class constants that csv\_io imports from
  \<^verbatim>\<open>zoltpy.quantile_io\<close>, a module that is not among the sources. The
  specification names the five classes bin, named, point, sample and quantile.
\<close>

definition BIN_DISTRIBUTION_CLASS :: json where
  "BIN_DISTRIBUTION_CLASS = JStr ''bin''"

definition NAMED_DISTRIBUTION_CLASS :: json where
  "NAMED_DISTRIBUTION_CLASS = JStr ''named''"

definition POINT_PREDICTION_CLASS :: json where
  "POINT_PREDICTION_CLASS = JStr ''point''"

definition SAMPLE_PREDICTION_CLASS :: json where
  "SAMPLE_PREDICTION_CLASS = JStr ''sample''"

text \<open>The three inner loops: each iteration appends one row to \<open>rows\<close>.\<close>

definition bin_rows ::
  "json \<Rightarrow> json \<Rightarrow> json \<Rightarrow> (json \<times> json) list \<Rightarrow> json list list \<Rightarrow> json list list" where
  "bin_rows unit target prediction_class pairs rows =
     fold (\<lambda>(cat, prob) rows. rows @
        [[unit, target, prediction_class, JStr '''', cat, prob, JStr '''', JStr '''',
          JStr '''', JStr '''', JStr '''', JStr '''']]) pairs rows"

definition sample_rows ::
  "json \<Rightarrow> json \<Rightarrow> json \<Rightarrow> json list \<Rightarrow> json list list \<Rightarrow> json list list" where
  "sample_rows unit target prediction_class samples rows =
     fold (\<lambda>sample rows. rows @
        [[unit, target, prediction_class, JStr '''', JStr '''', JStr '''', sample, JStr '''',
          JStr '''', JStr '''', JStr '''', JStr '''']]) samples rows"

definition quantile_rows ::
  "json \<Rightarrow> json \<Rightarrow> json \<Rightarrow> (json \<times> json) list \<Rightarrow> json list list \<Rightarrow> json list list" where
  "quantile_rows unit target prediction_class pairs rows =
     fold (\<lambda>(quantile, value) rows. rows @
        [[unit, target, prediction_class, value, JStr '''', JStr '''', JStr '''', quantile,
          JStr '''', JStr '''', JStr '''', JStr '''']]) pairs rows"

text \<open>\<^verbatim>\<open>prediction[k] if k in prediction else ''\<close>\<close>

definition param_or_empty :: "json \<Rightarrow> string \<Rightarrow> error + json" where
  "param_or_empty prediction k =
     bind (contains k prediction) (\<lambda>present.
       if present then getitem prediction k else Inr (JStr ''''))"

text \<open>
  The body of the outer loop for one \<open>prediction_dict\<close>, in two parts. \<open>class_rows\<close>
  is the chain of \<^verbatim>\<open>if\<close>/\<^verbatim>\<open>elif\<close> on the class (lines 38 to 58 of the
  source): the columns of a class that are not filled are \<^verbatim>\<open>''\<close>.
  \<^verbatim>\<open>zip(a, b)\<close> reads both subscripts, then takes both iterators, and stops at the
  shorter one.
\<close>

definition class_rows ::
  "json \<Rightarrow> json \<Rightarrow> json \<Rightarrow> json \<Rightarrow> json list list \<Rightarrow> error + json list list" where
  "class_rows unit target prediction_class prediction rows =
    (if prediction_class = BIN_DISTRIBUTION_CLASS then
       bind (getitem prediction ''cat'') (\<lambda>cats.
       bind (getitem prediction ''prob'') (\<lambda>probs.
       bind (py_iter cats) (\<lambda>cat_items.
       bind (py_iter probs) (\<lambda>prob_items.
       Inr (bin_rows unit target prediction_class (zip cat_items prob_items) rows)))))
     else if prediction_class = NAMED_DISTRIBUTION_CLASS then
       bind (getitem prediction ''family'') (\<lambda>family.
       bind (param_or_empty prediction ''param1'') (\<lambda>param1.
       bind (param_or_empty prediction ''param2'') (\<lambda>param2.
       bind (param_or_empty prediction ''param3'') (\<lambda>param3.
       Inr (rows @ [[unit, target, prediction_class, JStr '''', JStr '''', JStr '''', JStr '''',
                     JStr '''', family, param1, param2, param3]])))))
     else if prediction_class = POINT_PREDICTION_CLASS then
       bind (getitem prediction ''value'') (\<lambda>value.
       Inr (rows @ [[unit, target, prediction_class, value, JStr '''', JStr '''', JStr '''',
                     JStr '''', JStr '''', JStr '''', JStr '''', JStr '''']]))
     else if prediction_class = SAMPLE_PREDICTION_CLASS then
       bind (getitem prediction ''sample'') (\<lambda>samples.
       bind (py_iter samples) (\<lambda>sample_items.
       Inr (sample_rows unit target prediction_class sample_items rows)))
     else
       bind (getitem prediction ''quantile'') (\<lambda>quantiles.
       bind (getitem prediction ''value'') (\<lambda>values.
       bind (py_iter quantiles) (\<lambda>quantile_items.
       bind (py_iter values) (\<lambda>value_items.
       Inr (quantile_rows unit target prediction_class (zip quantile_items value_items)
              rows))))))"

text \<open>\<open>prediction_rows\<close> is the whole body (lines 28 to 58): the class is read and
  checked first, then unit, target and prediction are read, then the class decides.\<close>

definition prediction_rows :: "json \<Rightarrow> json list list \<Rightarrow> error + json list list" where
  "prediction_rows prediction_dict rows =
     bind (getitem prediction_dict ''class'') (\<lambda>prediction_class.
     if prediction_class \<notin> set (map JStr [''bin'', ''named'', ''point'', ''sample'', ''quantile''])
     then Inl (RuntimeError (InvalidPredictionClass prediction_class))
     else
       bind (getitem prediction_dict ''unit'') (\<lambda>unit.
       bind (getitem prediction_dict ''target'') (\<lambda>target.
       bind (getitem prediction_dict ''prediction'') (\<lambda>prediction.
       class_rows unit target prediction_class prediction rows))))"

text \<open>The outer loop: the first exception ends it, and the rows built so far are lost.\<close>

fun predictions_loop :: "json list \<Rightarrow> json list list \<Rightarrow> error + json list list" where
  "predictions_loop [] rows = Inr rows"
| "predictions_loop (prediction_dict # rest) rows =
     (case prediction_rows prediction_dict rows of
        Inl e \<Rightarrow> Inl e
      | Inr rows' \<Rightarrow> predictions_loop rest rows')"

definition csv_rows_from_json_io_dict :: "(string \<times> json) list \<Rightarrow> error + json list list" where
  "csv_rows_from_json_io_dict json_io_dict =
     (if ''predictions'' \<notin> fst ` set json_io_dict
      then Inl (RuntimeError NoPredictionsSection)
      else bind (getitem (JDict json_io_dict) ''predictions'') (\<lambda>predictions.
           bind (py_iter predictions) (\<lambda>prediction_dicts.
           predictions_loop prediction_dicts [CSV_HEADER])))"


subsection \<open>The table of the interchange format\<close>

text \<open>
  The specification gives the rows of one prediction entry as a table by class: one row
  per (cat, prob) pair for bin, one row for named (absent params empty), one row for point,
  one row per element for sample, one row per (quantile, value) pair for quantile.
  \<open>spec_rows\<close> is that table, written over the fields of the entry and not over the loop
  of the source; \<open>map\<close> and \<open>zip\<close> keep the order of the arrays. \<open>field\<close>,
  \<open>optional_field\<close> and \<open>items\<close> read an entry without failing.
\<close>

definition field :: "json \<Rightarrow> string \<Rightarrow> json" where
  "field j k = (case getitem j k of Inr v \<Rightarrow> v | Inl e \<Rightarrow> JNull)"

definition optional_field :: "json \<Rightarrow> string \<Rightarrow> json" where
  "optional_field j k = (case getitem j k of Inr v \<Rightarrow> v | Inl e \<Rightarrow> JStr '''')"

definition items :: "json \<Rightarrow> json list" where
  "items j = (case py_iter j of Inr xs \<Rightarrow> xs | Inl e \<Rightarrow> [])"

definition spec_rows :: "json \<Rightarrow> json list list" where
  "spec_rows entry =
     (let unit = field entry ''unit''; target = field entry ''target'';
          cls = field entry ''class''; payload = field entry ''prediction''; E = JStr ''''
      in if cls = JStr ''bin'' then
           map (\<lambda>(cat, prob). [unit, target, cls, E, cat, prob, E, E, E, E, E, E])
             (zip (items (field payload ''cat'')) (items (field payload ''prob'')))
         else if cls = JStr ''named'' then
           [[unit, target, cls, E, E, E, E, E, field payload ''family'',
             optional_field payload ''param1'', optional_field payload ''param2'',
             optional_field payload ''param3'']]
         else if cls = JStr ''point'' then
           [[unit, target, cls, field payload ''value'', E, E, E, E, E, E, E, E]]
         else if cls = JStr ''sample'' then
           map (\<lambda>sample. [unit, target, cls, E, E, E, sample, E, E, E, E, E])
             (items (field payload ''sample''))
         else if cls = JStr ''quantile'' then
           map (\<lambda>(quantile, value). [unit, target, cls, value, E, E, E, quantile, E, E, E, E])
             (zip (items (field payload ''quantile'')) (items (field payload ''value'')))
         else [])"

text \<open>The number of rows of one entry: the shorter of two parallel arrays for bin and
  quantile, the number of samples for sample, one for named and point.\<close>

definition row_count :: "json \<Rightarrow> nat" where
  "row_count entry =
     (let cls = field entry ''class''; payload = field entry ''prediction''
      in if cls = JStr ''bin'' then
           min (length (items (field payload ''cat''))) (length (items (field payload ''prob'')))
         else if cls = JStr ''sample'' then length (items (field payload ''sample''))
         else if cls = JStr ''quantile'' then
           min (length (items (field payload ''quantile''))) (length (items (field payload ''value'')))
         else if cls = JStr ''named'' \<or> cls = JStr ''point'' then 1
         else 0)"


section \<open>connection: the transport\<close>

text \<open>
  The \<^verbatim>\<open>requests\<close> library is the one collaborator of connection.py. A request
  is recorded with what the source passes to it; the server is a function from the number
  of requests seen so far and the request to the response, so that the same locator may be
  answered differently over time. \<open>json_body\<close> is \<open>None\<close> where
  \<^verbatim>\<open>response.json()\<close> would raise.
\<close>

datatype request =
    Get string json
      \<comment> \<open>\<^verbatim>\<open>requests.get(uri, headers=...)\<close>: the uri and the session token\<close>
  | PostTokenAuth string json json
      \<comment> \<open>\<^verbatim>\<open>requests.post(host + '/api-token-auth/', {...})\<close>: url, username, password\<close>
  | PostModel string json "(string \<times> json) list"
      \<comment> \<open>\<^verbatim>\<open>requests.post(f'{uri}models/', ...)\<close>: url, session token, model\_config\<close>

record response =
  status_code :: int
  response_text :: string
  json_body :: "json option"

record net =
  sent :: "request list"
  server :: "nat \<Rightarrow> request \<Rightarrow> response"

definition send :: "request \<Rightarrow> net \<Rightarrow> response \<times> net" where
  "send req w = (server w (length (sent w)) req, w\<lparr>sent := sent w @ [req]\<rparr>)"

text \<open>\<^verbatim>\<open>response.json()\<close>\<close>

definition response_json :: "response \<Rightarrow> error + json" where
  "response_json resp = (case json_body resp of None \<Rightarrow> Inl ValueError | Some j \<Rightarrow> Inr j)"


section \<open>connection: ZoltarConnection and ZoltarSession\<close>

record ZoltarSession =
  token :: json

text \<open>\<open>username\<close> and \<open>password\<close> are \<open>JNull\<close> (\<^verbatim>\<open>None\<close>) until
  \<open>authenticate\<close> stores them; \<open>session\<close> is \<open>None\<close> until then.\<close>

record ZoltarConnection =
  host :: string
  username :: json
  password :: json
  session :: "ZoltarSession option"

definition ZoltarConnection_init :: "string \<Rightarrow> ZoltarConnection" where
  "ZoltarConnection_init h = \<lparr>host = h, username = JNull, password = JNull, session = None\<rparr>"

definition get_token :: "ZoltarConnection \<Rightarrow> net \<Rightarrow> (error + json) \<times> net" where
  "get_token zoltar_connection w =
     (let (resp, w') = send (PostTokenAuth (host zoltar_connection @ ''/api-token-auth/'')
                               (username zoltar_connection) (password zoltar_connection)) w
      in if status_code resp \<noteq> 200
         then (Inl (RuntimeError (TokenStatusNot200 (status_code resp) (response_text resp))), w')
         else (bind (response_json resp) (\<lambda>j. getitem j ''token''), w'))"

definition ZoltarSession_init :: "ZoltarConnection \<Rightarrow> net \<Rightarrow> (error + ZoltarSession) \<times> net" where
  "ZoltarSession_init zoltar_connection w =
     (case get_token zoltar_connection w of
        (Inl e, w') \<Rightarrow> (Inl e, w')
      | (Inr t, w') \<Rightarrow> (Inr \<lparr>token = t\<rparr>, w'))"

definition is_token_expired :: "ZoltarSession \<Rightarrow> bool" where
  "is_token_expired s = True"

text \<open>The credentials are stored before the session is built: they stay stored when the
  token exchange raises, and the session attribute is then not assigned.\<close>

definition authenticate ::
  "ZoltarConnection \<Rightarrow> json \<Rightarrow> json \<Rightarrow> net \<Rightarrow> (error + unit) \<times> ZoltarConnection \<times> net" where
  "authenticate c user pass w =
     (let c1 = c\<lparr>username := user, password := pass\<rparr>
      in case ZoltarSession_init c1 w of
           (Inl e, w') \<Rightarrow> (Inl e, c1, w')
         | (Inr s, w') \<Rightarrow> (Inr (), c1\<lparr>session := Some s\<rparr>, w'))"

definition re_authenticate_if_necessary ::
  "ZoltarConnection \<Rightarrow> net \<Rightarrow> (error + unit) \<times> ZoltarConnection \<times> net" where
  "re_authenticate_if_necessary c w =
     (case session c of
        None \<Rightarrow> (Inl AttributeError, c, w)
      | Some s \<Rightarrow>
          if is_token_expired s then authenticate c (username c) (password c) w
          else (Inr (), c, w))"

definition json_for_uri :: "ZoltarConnection \<Rightarrow> string \<Rightarrow> net \<Rightarrow> (error + json) \<times> net" where
  "json_for_uri c uri w =
     (case session c of
        None \<Rightarrow> (Inl (RuntimeError NoSession), w)
      | Some s \<Rightarrow>
          let (resp, w') = send (Get uri (token s)) w
          in if status_code resp \<noteq> 200
             then (Inl (RuntimeError (JsonStatusNot200 (status_code resp) (response_text resp))), w')
             else (response_json resp, w'))"


section \<open>connection: ZoltarResource\<close>

text \<open>\<open>cached_json\<close> is the attribute \<^verbatim>\<open>_json\<close>: \<open>JNull\<close> is
  \<^verbatim>\<open>None\<close>, the value of a resource built without \<^verbatim>\<open>initial_json\<close>. The
  connection a resource refers to is passed to each operation.\<close>

record ZoltarResource =
  uri :: string
  cached_json :: json

definition ZoltarResource_init :: "string \<Rightarrow> json \<Rightarrow> ZoltarResource" where
  "ZoltarResource_init u initial_json = \<lparr>uri = u, cached_json = initial_json\<rparr>"

subsection \<open>id\_for\_uri\<close>

text \<open>\<^verbatim>\<open>s.split(c)\<close>: never empty; \<^verbatim>\<open>'a//b/'.split('/')\<close> is
  \<^verbatim>\<open>['a', '', 'b', '']\<close>.\<close>

fun split :: "char \<Rightarrow> string \<Rightarrow> string list" where
  "split c [] = [[]]"
| "split c (x # xs) =
     (if x = c then [] # split c xs
      else (case split c xs of w # ws \<Rightarrow> (x # w) # ws | [] \<Rightarrow> [[x]]))"

text \<open>
  \<^verbatim>\<open>int(s)\<close> for a string, base 10, as CPython 3.11 does it for an ASCII string:
  surrounding whitespace (the bytes 9 to 13 and 32) is stripped, one sign is allowed, then
  decimal digits, with single underscores allowed between digits. A numeral with more
  digits than \<^verbatim>\<open>sys.get_int_max_str_digits()\<close>, 4300 unless the interpreter is
  configured otherwise, raises ValueError, as a malformed numeral does. A string with a
  byte outside ASCII takes another path in CPython (Unicode digits and spaces are
  translated first): that path is not rendered here.
\<close>

definition is_space :: "char \<Rightarrow> bool" where
  "is_space c = (of_char c \<in> {9, 10, 11, 12, 13, 32 :: nat})"

definition strip :: "string \<Rightarrow> string" where
  "strip s = rev (dropWhile is_space (rev (dropWhile is_space s)))"

definition is_digit :: "char \<Rightarrow> bool" where
  "is_digit c = (48 \<le> (of_char c :: nat) \<and> (of_char c :: nat) \<le> 57)"

definition digit_val :: "char \<Rightarrow> nat" where
  "digit_val c = of_char c - 48"

fun parse_digits :: "nat \<Rightarrow> string \<Rightarrow> nat option" where
  "parse_digits acc [] = Some acc"
| "parse_digits acc [c] = (if is_digit c then Some (10 * acc + digit_val c) else None)"
| "parse_digits acc (c # d # ds) =
     (if is_digit c then parse_digits (10 * acc + digit_val c) (d # ds)
      else if c = CHR ''_'' \<and> is_digit d then parse_digits (10 * acc + digit_val d) ds
      else None)"

definition parse_unsigned :: "string \<Rightarrow> nat option" where
  "parse_unsigned s =
     (case s of [] \<Rightarrow> None
      | c # cs \<Rightarrow> if is_digit c then parse_digits (digit_val c) cs else None)"

definition int_max_str_digits :: nat where
  "int_max_str_digits = 4300"

text \<open>The digits after the sign: the syntax is checked, then the number of digits
  (underscores do not count), then the value is computed.\<close>

definition unsigned_value :: "string \<Rightarrow> error + nat" where
  "unsigned_value s =
     (case parse_unsigned s of
        None \<Rightarrow> Inl ValueError
      | Some n \<Rightarrow>
          if int_max_str_digits < length (filter is_digit s) then Inl ValueError else Inr n)"

definition py_int :: "string \<Rightarrow> error + int" where
  "py_int s =
     (if list_ex (\<lambda>c. 128 \<le> (of_char c :: nat)) s then Inl Unmodelled
      else
        (case strip s of
           [] \<Rightarrow> Inl ValueError
         | c # cs \<Rightarrow>
             if c = CHR ''-'' then
               (case unsigned_value cs of Inl e \<Rightarrow> Inl e | Inr n \<Rightarrow> Inr (- int n))
             else if c = CHR ''+'' then
               (case unsigned_value cs of Inl e \<Rightarrow> Inl e | Inr n \<Rightarrow> Inr (int n))
             else
               (case unsigned_value (c # cs) of Inl e \<Rightarrow> Inl e | Inr n \<Rightarrow> Inr (int n))))"

definition id_for_uri :: "string \<Rightarrow> error + int" where
  "id_for_uri u =
     (let url_split = filter (\<lambda>split. split \<noteq> []) (split (CHR ''/'') u)
      in if url_split = [] then Inl IndexError else py_int (last url_split))"

subsection \<open>json and refresh\<close>

text \<open>The assignment to \<^verbatim>\<open>self._json\<close> happens after \<open>json_for_uri\<close> has
  returned; when it raises, the attribute keeps its value.\<close>

definition refresh ::
  "ZoltarResource \<Rightarrow> ZoltarConnection \<Rightarrow> net \<Rightarrow> (error + json) \<times> ZoltarResource \<times> net" where
  "refresh r c w =
     (case json_for_uri c (uri r) w of
        (Inl e, w') \<Rightarrow> (Inl e, r, w')
      | (Inr j, w') \<Rightarrow> (Inr j, r\<lparr>cached_json := j\<rparr>, w'))"

text \<open>The property \<^verbatim>\<open>json\<close>:
  \<^verbatim>\<open>return self._json if self._json else self.refresh()\<close>.\<close>

definition json_property ::
  "ZoltarResource \<Rightarrow> ZoltarConnection \<Rightarrow> net \<Rightarrow> (error + json) \<times> ZoltarResource \<times> net" where
  "json_property r c w =
     (if truthy (cached_json r) then (Inr (cached_json r), r, w) else refresh r c w)"


section \<open>connection: Project.create\_model\<close>

definition expected_keys :: "string set" where
  "expected_keys = {''name'', ''abbreviation'', ''team_name'', ''description'', ''home_url'',
     ''aux_data_url''}"

text \<open>\<^verbatim>\<open>str(x)\<close> inside an f-string, for the values it is rendered for here.\<close>

fun digits :: "nat \<Rightarrow> string" where
  "digits n = (if n < 10 then [char_of (48 + n)] else digits (n div 10) @ [char_of (48 + n mod 10)])"

declare digits.simps [simp del]

definition str_int :: "int \<Rightarrow> string" where
  "str_int i = (if i < 0 then CHR ''-'' # digits (nat (- i)) else digits (nat i))"

fun py_str :: "json \<Rightarrow> error + string" where
  "py_str JNull = Inr ''None''"
| "py_str (JBool b) = Inr (if b then ''True'' else ''False'')"
| "py_str (JInt i) = Inr (str_int i)"
| "py_str (JStr s) = Inr s"
| "py_str _ = Inl Unmodelled"

text \<open>The model\_config is a dict with string keys. The session token is read while the
  arguments of \<^verbatim>\<open>requests.post\<close> are built, so a connection without a session
  raises before the request.\<close>

definition create_model ::
  "ZoltarResource \<Rightarrow> ZoltarConnection \<Rightarrow> (string \<times> json) list \<Rightarrow> net
     \<Rightarrow> (error + ZoltarResource) \<times> net" where
  "create_model project c model_config w =
     (let actual_keys = fst ` set model_config
      in if actual_keys \<noteq> expected_keys
         then (Inl (RuntimeError (WrongKeys expected_keys actual_keys)), w)
         else
           (case session c of
              None \<Rightarrow> (Inl AttributeError, w)
            | Some s \<Rightarrow>
                let (resp, w') = send (PostModel (uri project @ ''models/'') (token s) model_config) w
                in if status_code resp \<noteq> 200
                   then (Inl (RuntimeError (ModelStatusNot200 (status_code resp) (response_text resp))), w')
                   else
                     (bind (response_json resp) (\<lambda>new_model_json.
                      bind (getitem new_model_json ''id'') (\<lambda>new_model_pk.
                      bind (py_str new_model_pk) (\<lambda>pk_str.
                      Inr (ZoltarResource_init (host c @ ''/api/model/'' @ pk_str)
                             new_model_json)))), w')))"


section \<open>connection: UploadFileJob.status\_as\_str\<close>

definition STATUS_ID_TO_STR :: "(int \<times> string) list" where
  "STATUS_ID_TO_STR =
     [(0, ''PENDING''), (1, ''CLOUD_FILE_UPLOADED''), (2, ''QUEUED''),
      (3, ''CLOUD_FILE_DOWNLOADED''), (4, ''SUCCESS''), (5, ''FAILED'')]"

text \<open>
  \<^verbatim>\<open>STATUS_ID_TO_STR[status_int]\<close>: the keys are ints, and a key is found by hash and
  \<^verbatim>\<open>==\<close>. \<^verbatim>\<open>True\<close> and \<^verbatim>\<open>1.0\<close> equal \<^verbatim>\<open>1\<close>; a string or
  \<^verbatim>\<open>None\<close> equals no int; a list or a dict cannot be hashed.
\<close>

fun status_lookup :: "json \<Rightarrow> error + string" where
  "status_lookup (JInt n) =
     (case map_of STATUS_ID_TO_STR n of None \<Rightarrow> Inl (KeyError (JInt n)) | Some s \<Rightarrow> Inr s)"
| "status_lookup (JBool b) =
     (case map_of STATUS_ID_TO_STR (if b then 1 else 0) of
        None \<Rightarrow> Inl (KeyError (JBool b)) | Some s \<Rightarrow> Inr s)"
| "status_lookup (JFloat x) =
     (if of_int (floor x) = x then
        (case map_of STATUS_ID_TO_STR (floor x) of None \<Rightarrow> Inl (KeyError (JFloat x)) | Some s \<Rightarrow> Inr s)
      else Inl (KeyError (JFloat x)))"
| "status_lookup (JList xs) = Inl TypeError"
| "status_lookup (JDict d) = Inl TypeError"
| "status_lookup k = Inl (KeyError k)"

definition status_as_str ::
  "ZoltarResource \<Rightarrow> ZoltarConnection \<Rightarrow> net \<Rightarrow> (error + string) \<times> ZoltarResource \<times> net" where
  "status_as_str r c w =
     (case json_property r c w of
        (res, r', w') \<Rightarrow>
          (bind res (\<lambda>j. bind (getitem j ''status'') (\<lambda>status_int. status_lookup status_int)),
           r', w'))"


section \<open>Properties of csv\_rows\_from\_json\_io\_dict\<close>

lemma bin_rows_append:
  "bin_rows u t c pairs rows = rows @ map (\<lambda>(cat, prob). [u, t, c, JStr '''', cat, prob, JStr '''', JStr '''',
          JStr '''', JStr '''', JStr '''', JStr '''']) pairs"
  unfolding bin_rows_def by (induction pairs arbitrary: rows) auto

lemma sample_rows_append:
  "sample_rows u t c xs rows = rows @ map (\<lambda>sample. [u, t, c, JStr '''', JStr '''', JStr '''', sample, JStr '''',
          JStr '''', JStr '''', JStr '''', JStr '''']) xs"
  unfolding sample_rows_def by (induction xs arbitrary: rows) auto

lemma quantile_rows_append:
  "quantile_rows u t c pairs rows = rows @ map (\<lambda>(quantile, value). [u, t, c, value, JStr '''', JStr '''', JStr '''', quantile,
          JStr '''', JStr '''', JStr '''', JStr '''']) pairs"
  unfolding quantile_rows_def by (induction pairs arbitrary: rows) auto

lemma bind_Inr_iff: "bind m f = Inr y \<longleftrightarrow> (\<exists>x. m = Inr x \<and> f x = Inr y)"
  by (cases m) (auto simp: bind_def)

lemma if_Inl_Inr_iff: "((if P then Inl e else m) = Inr y) = (\<not> P \<and> m = Inr y)"
  by simp

lemma field_eq: "getitem j k = Inr v \<Longrightarrow> field j k = v"
  by (simp add: field_def)

lemma items_eq: "py_iter j = Inr xs \<Longrightarrow> items j = xs"
  by (simp add: items_def)

lemma param_or_empty_eq: "getitem p k' = Inr f \<Longrightarrow> param_or_empty p k = Inr v \<Longrightarrow> optional_field p k = v"
  apply (cases p)
  apply (auto simp: param_or_empty_def optional_field_def bind_def split: if_splits option.splits sum.splits)
   apply (metis domIff dom_map_of_conv_image_fst option.distinct(1))
  done

lemma prediction_rows_fields:
  assumes "prediction_rows pd rows = Inr rows'"
  shows "\<exists>c u t p. getitem pd ''class'' = Inr c
    \<and> c \<in> set (map JStr [''bin'', ''named'', ''point'', ''sample'', ''quantile''])
    \<and> getitem pd ''unit'' = Inr u \<and> getitem pd ''target'' = Inr t
    \<and> getitem pd ''prediction'' = Inr p \<and> class_rows u t c p rows = Inr rows'"
  using assms unfolding prediction_rows_def bind_Inr_iff if_Inl_Inr_iff
  by blast

lemma class_rows_bin:
  assumes "class_rows u t (JStr ''bin'') p rows = Inr rows'"
  shows "rows' = rows @ map (\<lambda>(cat, prob). [u, t, JStr ''bin'', JStr '''', cat, prob, JStr '''', JStr '''',
          JStr '''', JStr '''', JStr '''', JStr ''''])
             (zip (items (field p ''cat'')) (items (field p ''prob'')))"
  using assms unfolding class_rows_def BIN_DISTRIBUTION_CLASS_def
  by (auto simp: bind_Inr_iff field_eq items_eq bin_rows_append)

lemma class_rows_named:
  assumes "class_rows u t (JStr ''named'') p rows = Inr rows'"
  shows "rows' = rows @ [[u, t, JStr ''named'', JStr '''', JStr '''', JStr '''', JStr '''', JStr '''',
          field p ''family'', optional_field p ''param1'', optional_field p ''param2'',
             optional_field p ''param3'']]"
  using assms unfolding class_rows_def BIN_DISTRIBUTION_CLASS_def NAMED_DISTRIBUTION_CLASS_def
  by (auto simp: bind_Inr_iff field_eq param_or_empty_eq)

lemma class_rows_point:
  assumes "class_rows u t (JStr ''point'') p rows = Inr rows'"
  shows "rows' = rows @ [[u, t, JStr ''point'', field p ''value'', JStr '''', JStr '''', JStr '''', JStr '''',
          JStr '''', JStr '''', JStr '''', JStr '''']]"
  using assms unfolding class_rows_def BIN_DISTRIBUTION_CLASS_def NAMED_DISTRIBUTION_CLASS_def POINT_PREDICTION_CLASS_def
  by (auto simp: bind_Inr_iff field_eq)

lemma class_rows_sample:
  assumes "class_rows u t (JStr ''sample'') p rows = Inr rows'"
  shows "rows' = rows @ map (\<lambda>sample. [u, t, JStr ''sample'', JStr '''', JStr '''', JStr '''', sample, JStr '''',
          JStr '''', JStr '''', JStr '''', JStr '''']) (items (field p ''sample''))"
  using assms unfolding class_rows_def BIN_DISTRIBUTION_CLASS_def NAMED_DISTRIBUTION_CLASS_def POINT_PREDICTION_CLASS_def
    SAMPLE_PREDICTION_CLASS_def
  by (auto simp: bind_Inr_iff field_eq items_eq sample_rows_append)

lemma class_rows_quantile:
  assumes "class_rows u t (JStr ''quantile'') p rows = Inr rows'"
  shows "rows' = rows @ map (\<lambda>(quantile, value). [u, t, JStr ''quantile'', value, JStr '''', JStr '''', JStr '''', quantile,
          JStr '''', JStr '''', JStr '''', JStr ''''])
             (zip (items (field p ''quantile'')) (items (field p ''value'')))"
  using assms unfolding class_rows_def BIN_DISTRIBUTION_CLASS_def NAMED_DISTRIBUTION_CLASS_def POINT_PREDICTION_CLASS_def
    SAMPLE_PREDICTION_CLASS_def
  by (auto simp: bind_Inr_iff field_eq items_eq quantile_rows_append)

lemma prediction_rows_table:
  assumes "prediction_rows pd rows = Inr rows'"
  shows "rows' = rows @ spec_rows pd"
proof -
  from prediction_rows_fields [OF assms] obtain c u t p where
    c: "getitem pd ''class'' = Inr c"
    and valid: "c \<in> set (map JStr [''bin'', ''named'', ''point'', ''sample'', ''quantile''])"
    and u: "getitem pd ''unit'' = Inr u" and t: "getitem pd ''target'' = Inr t"
    and p: "getitem pd ''prediction'' = Inr p" and r: "class_rows u t c p rows = Inr rows'"
    by blast
  note f = field_eq [OF c] field_eq [OF u] field_eq [OF t] field_eq [OF p]
  from valid have "c = JStr ''bin'' \<or> c = JStr ''named'' \<or> c = JStr ''point''
    \<or> c = JStr ''sample'' \<or> c = JStr ''quantile''"
    by (simp only: list.map list.set insert_iff empty_iff simp_thms)
  then consider "c = JStr ''bin''" | "c = JStr ''named''" | "c = JStr ''point''"
    | "c = JStr ''sample''" | "c = JStr ''quantile''" by blast
  then show ?thesis
  proof cases
    case 1
    from class_rows_bin [OF r [unfolded 1]] show ?thesis
      by (simp add: spec_rows_def Let_def f 1)
  next
    case 2
    from class_rows_named [OF r [unfolded 2]] show ?thesis
      by (simp add: spec_rows_def Let_def f 2)
  next
    case 3
    from class_rows_point [OF r [unfolded 3]] show ?thesis
      by (simp add: spec_rows_def Let_def f 3)
  next
    case 4
    from class_rows_sample [OF r [unfolded 4]] show ?thesis
      by (simp add: spec_rows_def Let_def f 4)
  next
    case 5
    from class_rows_quantile [OF r [unfolded 5]] show ?thesis
      by (simp add: spec_rows_def Let_def f 5)
  qed
qed

lemma predictions_loop_table:
  "predictions_loop ps rows = Inr rows' \<Longrightarrow> rows' = rows @ concat (map spec_rows ps)"
proof (induction ps arbitrary: rows)
  case Nil
  then show ?case by simp
next
  case (Cons pd ps)
  from Cons.prems obtain mid where mid: "prediction_rows pd rows = Inr mid"
    and rest: "predictions_loop ps mid = Inr rows'"
    by (auto split: sum.splits)
  from Cons.IH [OF rest] prediction_rows_table [OF mid] show ?case by simp
qed

lemma csv_rows_table:
  assumes "csv_rows_from_json_io_dict d = Inr rows"
  shows "rows = CSV_HEADER # concat (map spec_rows (items (field (JDict d) ''predictions'')))"
  using assms unfolding csv_rows_from_json_io_dict_def
  by (auto simp: bind_Inr_iff field_eq items_eq split: if_splits dest!: predictions_loop_table)

lemma length_spec_rows: "length (spec_rows pd) = row_count pd"
  by (simp add: spec_rows_def row_count_def Let_def)

lemma bind_simps: "bind (Inr x) f = f x" "bind (Inl e) f = Inl e"
  by (simp_all add: bind_def)





lemmas csv_eval = csv_rows_from_json_io_dict_def prediction_rows_def class_rows_def bind_simps
  param_or_empty_def bin_rows_def sample_rows_def quantile_rows_def BIN_DISTRIBUTION_CLASS_def
  NAMED_DISTRIBUTION_CLASS_def POINT_PREDICTION_CLASS_def SAMPLE_PREDICTION_CLASS_def

text \<open>
  Claim C1, as the code has it. A conversion that returns rows returns the 12-column header
  first, and the number of rows is one for the header plus, for each prediction entry,
  \<open>row_count\<close>: the number of (cat, prob) pairs of a bin entry, which is the length of
  the shorter of its two arrays (and so the number of categories when the arrays are
  parallel), the number of samples of a sample entry, the number of (quantile, value)
  pairs of a quantile entry, and one for a point or a named entry.
\<close>

theorem csv_row_count:
  assumes "csv_rows_from_json_io_dict d = Inr rows"
  shows "(\<exists>data. rows = CSV_HEADER # data) \<and>
         length rows = 1 + sum_list (map row_count (items (field (JDict d) ''predictions'')))"
proof -
  have "length (concat (map spec_rows ps)) = sum_list (map row_count ps)" for ps
    by (induction ps) (simp_all add: length_spec_rows)
  with csv_rows_table [OF assms] show ?thesis by simp
qed

theorem csv_row_count_witness:
  "csv_rows_from_json_io_dict
     [(''predictions'', JList
        [JDict [(''unit'', JStr ''loc1''), (''target'', JStr ''t1''), (''class'', JStr ''bin''),
                (''prediction'', JDict [(''cat'', JList [JStr ''a'', JStr ''b'']),
                                        (''prob'', JList [JFloat (1/4), JFloat (3/4)])])],
         JDict [(''unit'', JStr ''loc1''), (''target'', JStr ''t2''), (''class'', JStr ''named''),
                (''prediction'', JDict [(''family'', JStr ''norm''), (''param1'', JInt 0),
                                        (''param2'', JInt 1)])],
         JDict [(''unit'', JStr ''loc2''), (''target'', JStr ''t1''), (''class'', JStr ''sample''),
                (''prediction'', JDict [(''sample'', JList [JInt 1, JInt 2, JInt 3])])]])]
     = Inr [CSV_HEADER,
            [JStr ''loc1'', JStr ''t1'', JStr ''bin'', JStr '''', JStr ''a'', JFloat (1/4), JStr '''',
             JStr '''', JStr '''', JStr '''', JStr '''', JStr ''''],
            [JStr ''loc1'', JStr ''t1'', JStr ''bin'', JStr '''', JStr ''b'', JFloat (3/4), JStr '''',
             JStr '''', JStr '''', JStr '''', JStr '''', JStr ''''],
            [JStr ''loc1'', JStr ''t2'', JStr ''named'', JStr '''', JStr '''', JStr '''', JStr '''',
             JStr '''', JStr ''norm'', JInt 0, JInt 1, JStr ''''],
            [JStr ''loc2'', JStr ''t1'', JStr ''sample'', JStr '''', JStr '''', JStr '''', JInt 1,
             JStr '''', JStr '''', JStr '''', JStr '''', JStr ''''],
            [JStr ''loc2'', JStr ''t1'', JStr ''sample'', JStr '''', JStr '''', JStr '''', JInt 2,
             JStr '''', JStr '''', JStr '''', JStr '''', JStr ''''],
            [JStr ''loc2'', JStr ''t1'', JStr ''sample'', JStr '''', JStr '''', JStr '''', JInt 3,
             JStr '''', JStr '''', JStr '''', JStr '''', JStr '''']]
   \<and> sum_list (map row_count (items (field (JDict
     [(''predictions'', JList
        [JDict [(''unit'', JStr ''loc1''), (''target'', JStr ''t1''), (''class'', JStr ''bin''),
                (''prediction'', JDict [(''cat'', JList [JStr ''a'', JStr ''b'']),
                                        (''prob'', JList [JFloat (1/4), JFloat (3/4)])])],
         JDict [(''unit'', JStr ''loc1''), (''target'', JStr ''t2''), (''class'', JStr ''named''),
                (''prediction'', JDict [(''family'', JStr ''norm''), (''param1'', JInt 0),
                                        (''param2'', JInt 1)])],
         JDict [(''unit'', JStr ''loc2''), (''target'', JStr ''t1''), (''class'', JStr ''sample''),
                (''prediction'', JDict [(''sample'', JList [JInt 1, JInt 2, JInt 3])])]])])
       ''predictions''))) = 6"
  (is "?run = Inr ?rows \<and> ?count = 6")
proof -
  have run: "?run = Inr ?rows" by (simp add: csv_eval)
  from csv_row_count [OF run] have "length ?rows = 1 + ?count" by (rule conjunct2)
  then have "?count = 6" by simp
  with run show ?thesis by (rule conjI)
qed

text \<open>
  Claim C1, as it is stated, counts one row per category of a bin entry. The conversion
  accepts a bin entry with two categories and one probability, and emits one row for it:
  two rows with the header, not three.
\<close>

theorem bin_rows_stop_at_shorter_array:
  "csv_rows_from_json_io_dict
     [(''predictions'', JList
        [JDict [(''unit'', JStr ''loc1''), (''target'', JStr ''t1''), (''class'', JStr ''bin''),
                (''prediction'', JDict [(''cat'', JList [JStr ''a'', JStr ''b'']),
                                        (''prob'', JList [JFloat 1])])]])]
     = Inr [CSV_HEADER,
            [JStr ''loc1'', JStr ''t1'', JStr ''bin'', JStr '''', JStr ''a'', JFloat 1, JStr '''',
             JStr '''', JStr '''', JStr '''', JStr '''', JStr '''']]
   \<and> length [CSV_HEADER,
            [JStr ''loc1'', JStr ''t1'', JStr ''bin'', JStr '''', JStr ''a'', JFloat 1, JStr '''',
             JStr '''', JStr '''', JStr '''', JStr '''', JStr '''']]
       \<noteq> 1 + length [JStr ''a'', JStr ''b'']"
  by (simp add: csv_eval)




text \<open>
  Claim C9. The rows of a conversion are the header followed by the rows of the entries,
  entry after entry in the order of the predictions, and inside an entry in the order of
  its arrays, as \<open>spec_rows\<close> lists them. The result depends on the predictions section
  only: two dicts with the same predictions convert to the same result.
\<close>

theorem rows_in_source_order:
  "(csv_rows_from_json_io_dict d = Inr rows \<longrightarrow>
      rows = CSV_HEADER # concat (map spec_rows (items (field (JDict d) ''predictions''))))
   \<and> (map_of d ''predictions'' = map_of d' ''predictions'' \<longrightarrow>
      csv_rows_from_json_io_dict d = csv_rows_from_json_io_dict d')"
proof (intro conjI impI)
  assume "csv_rows_from_json_io_dict d = Inr rows"
  then show "rows = CSV_HEADER # concat (map spec_rows (items (field (JDict d) ''predictions'')))"
    by (rule csv_rows_table)
next
  assume same: "map_of d ''predictions'' = map_of d' ''predictions''"
  have mem: "(''predictions'' \<in> fst ` set x) = (map_of x ''predictions'' \<noteq> None)" for x :: "(string \<times> json) list"
    by (simp add: map_of_eq_None_iff)
  show "csv_rows_from_json_io_dict d = csv_rows_from_json_io_dict d'"
    unfolding csv_rows_from_json_io_dict_def mem getitem.simps same ..
qed

theorem rows_in_source_order_witness:
  "csv_rows_from_json_io_dict
     [(''meta'', JDict [(''note'', JStr ''first'')]),
      (''predictions'', JList
        [JDict [(''unit'', JStr ''loc1''), (''target'', JStr ''t1''), (''class'', JStr ''quantile''),
                (''prediction'', JDict [(''quantile'', JList [JFloat (3/4), JFloat (1/4)]),
                                        (''value'', JList [JInt 9, JInt 2])])],
         JDict [(''unit'', JStr ''loc1''), (''target'', JStr ''t1''), (''class'', JStr ''point''),
                (''prediction'', JDict [(''value'', JInt 5)])]])]
     = Inr [CSV_HEADER,
            [JStr ''loc1'', JStr ''t1'', JStr ''quantile'', JInt 9, JStr '''', JStr '''', JStr '''',
             JFloat (3/4), JStr '''', JStr '''', JStr '''', JStr ''''],
            [JStr ''loc1'', JStr ''t1'', JStr ''quantile'', JInt 2, JStr '''', JStr '''', JStr '''',
             JFloat (1/4), JStr '''', JStr '''', JStr '''', JStr ''''],
            [JStr ''loc1'', JStr ''t1'', JStr ''point'', JInt 5, JStr '''', JStr '''', JStr '''',
             JStr '''', JStr '''', JStr '''', JStr '''', JStr '''']]
   \<and> csv_rows_from_json_io_dict
     [(''predictions'', JList
        [JDict [(''unit'', JStr ''loc1''), (''target'', JStr ''t1''), (''class'', JStr ''quantile''),
                (''prediction'', JDict [(''quantile'', JList [JFloat (3/4), JFloat (1/4)]),
                                        (''value'', JList [JInt 9, JInt 2])])],
         JDict [(''unit'', JStr ''loc1''), (''target'', JStr ''t1''), (''class'', JStr ''point''),
                (''prediction'', JDict [(''value'', JInt 5)])]])]
     = Inr (CSV_HEADER # concat (map spec_rows
        [JDict [(''unit'', JStr ''loc1''), (''target'', JStr ''t1''), (''class'', JStr ''quantile''),
                (''prediction'', JDict [(''quantile'', JList [JFloat (3/4), JFloat (1/4)]),
                                        (''value'', JList [JInt 9, JInt 2])])],
         JDict [(''unit'', JStr ''loc1''), (''target'', JStr ''t1''), (''class'', JStr ''point''),
                (''prediction'', JDict [(''value'', JInt 5)])]]))"
  (is "csv_rows_from_json_io_dict ?d = Inr ?rows \<and> csv_rows_from_json_io_dict ?d' = Inr ?spec")
proof -
  have run: "csv_rows_from_json_io_dict ?d = Inr ?rows" by (simp add: csv_eval)
  have same: "map_of ?d ''predictions'' = map_of ?d' ''predictions''" by simp
  have entries: "CSV_HEADER # concat (map spec_rows (items (field (JDict ?d) ''predictions''))) = ?spec"
    by (simp add: field_def items_def)
  from rows_in_source_order [of ?d ?rows ?d'] run same
  have "?rows = CSV_HEADER # concat (map spec_rows (items (field (JDict ?d) ''predictions'')))"
    and "csv_rows_from_json_io_dict ?d = csv_rows_from_json_io_dict ?d'"
    by blast+
  with run entries show ?thesis by simp
qed

text \<open>
  Claim C10. A dict without the key predictions is rejected with the RuntimeError of the
  initial validation; no rows are returned.
\<close>

theorem missing_predictions_section:
  assumes "''predictions'' \<notin> fst ` set d"
  shows "csv_rows_from_json_io_dict d = Inl (RuntimeError NoPredictionsSection)"
  using assms by (simp add: csv_rows_from_json_io_dict_def)

theorem missing_predictions_section_witness:
  "csv_rows_from_json_io_dict [(''meta'', JDict []), (''forecast'', JList [])]
     = Inl (RuntimeError NoPredictionsSection)"
proof -
  have "''predictions'' \<notin> fst ` set [(''meta'', JDict []), (''forecast'', JList [])]" by simp
  then show ?thesis by (rule missing_predictions_section)
qed

section \<open>Properties of the resource proxies\<close>

subsection \<open>id\_for\_uri\<close>

lemma split_nonempty: "split c s \<noteq> []"
  by (induction s) (auto split: list.splits)

lemma split_append_sep: "split c (a @ c # b) = split c a @ split c b"
proof (induction a)
  case Nil
  show ?case by simp
next
  case (Cons x a)
  obtain w ws where w: "split c a = w # ws"
    using split_nonempty [of c a] by (cases "split c a") auto
  with Cons show ?case by simp
qed

lemma split_no_sep: "c \<notin> set s \<Longrightarrow> split c s = [s]"
  by (induction s) auto

lemma split_replicate: "split c (replicate k c) = replicate (Suc k) []"
  by (induction k) auto

lemma split_segment_then_seps:
  assumes "c \<notin> set seg"
  shows "split c (seg @ replicate k c) = seg # replicate k []"
proof (cases k)
  case 0
  with assms show ?thesis by (simp add: split_no_sep)
next
  case (Suc k')
  have "split c (seg @ c # replicate k' c) = split c seg @ split c (replicate k' c)"
    by (rule split_append_sep)
  with assms Suc show ?thesis by (simp add: split_no_sep split_replicate)
qed

lemma last_segment:
  assumes "c \<notin> set seg" and "seg \<noteq> []"
  shows "filter (\<lambda>s. s \<noteq> []) (split c (pre @ c # seg @ replicate k c))
           = filter (\<lambda>s. s \<noteq> []) (split c pre) @ [seg]"
proof -
  have "split c (pre @ c # (seg @ replicate k c)) = split c pre @ split c (seg @ replicate k c)"
    by (rule split_append_sep)
  with assms show ?thesis by (simp add: split_segment_then_seps)
qed

lemma digit_char: "d < 10 \<Longrightarrow> is_digit (char_of (48 + d)) \<and> digit_val (char_of (48 + d)) = d"
  by (simp add: is_digit_def digit_val_def)

lemma digits_all: "list_all is_digit (digits n)"
proof (induction n rule: digits.induct)
  case (1 n)
  show ?case
  proof (cases "n < 10")
    case True
    then show ?thesis by (subst digits.simps) (simp add: digit_char)
  next
    case False
    with 1 show ?thesis by (subst digits.simps) (simp add: digit_char)
  qed
qed

lemma digits_nonempty: "digits n \<noteq> []"
  by (subst digits.simps) simp

lemma parse_digits_all:
  "list_all is_digit ds \<Longrightarrow> parse_digits acc ds = Some (foldl (\<lambda>a c. 10 * a + digit_val c) acc ds)"
  by (induction acc ds rule: parse_digits.induct) auto

lemma parse_unsigned_all:
  assumes "list_all is_digit ds" and "ds \<noteq> []"
  shows "parse_unsigned ds = Some (foldl (\<lambda>a c. 10 * a + digit_val c) 0 ds)"
  using assms by (cases ds) (simp_all add: parse_unsigned_def parse_digits_all)

lemma foldl_digits: "foldl (\<lambda>a c. 10 * a + digit_val c) 0 (digits n) = n"
proof (induction n rule: digits.induct)
  case (1 n)
  show ?case
  proof (cases "n < 10")
    case True
    then show ?thesis by (subst digits.simps) (simp add: digit_char)
  next
    case False
    with 1 show ?thesis by (subst digits.simps) (simp add: digit_char)
  qed
qed

lemma parse_unsigned_digits: "parse_unsigned (digits n) = Some n"
  by (simp add: parse_unsigned_all digits_all digits_nonempty foldl_digits)

lemma digit_not_space: "is_digit c \<Longrightarrow> \<not> is_space c"
  by (auto simp: is_digit_def is_space_def)

lemma digit_not_slash: "is_digit c \<Longrightarrow> c \<noteq> CHR ''/'' \<and> c \<noteq> CHR ''-'' \<and> c \<noteq> CHR ''+''"
  by (auto simp: is_digit_def)

lemma strip_id:
  assumes "s \<noteq> []" and "\<not> is_space (hd s)" and "\<not> is_space (last s)"
  shows "strip s = s"
proof -
  from assms have "dropWhile is_space s = s" by (cases s) auto
  moreover from assms have "dropWhile is_space (rev s) = rev s"
    by (cases "rev s") (auto simp: last_rev [symmetric] hd_rev)
  ultimately show ?thesis by (simp add: strip_def)
qed

lemma digits_hd_last: "is_digit (hd (digits n)) \<and> is_digit (last (digits n))"
  using digits_all [of n] digits_nonempty [of n]
  by (cases "digits n") (auto simp: list_all_iff)

lemma digits_step: "10 \<le> n \<Longrightarrow> length (digits n) = Suc (length (digits (n div 10)))"
  by (subst digits.simps) simp

lemma digits_length_le: "0 < k \<Longrightarrow> n < 10 ^ k \<Longrightarrow> length (digits n) \<le> k"
proof (induction k arbitrary: n)
  case 0
  then show ?case by simp
next
  case (Suc k)
  show ?case
  proof (cases "n < 10")
    case True
    then show ?thesis by (subst digits.simps) simp
  next
    case False
    then have k: "0 < k" using Suc.prems by (cases k) auto
    from Suc.prems have "n div 10 < 10 ^ k" by (simp add: less_mult_imp_div_less mult.commute)
    from Suc.IH [OF k this] False show ?thesis by (simp add: digits_step)
  qed
qed

lemma digits_length_gt: "10 ^ k \<le> n \<Longrightarrow> k < length (digits n)"
proof (induction k arbitrary: n)
  case 0
  then show ?case using digits_nonempty [of n] by (cases "digits n") auto
next
  case (Suc k)
  then have ten: "10 \<le> n"
    by (metis One_nat_def le_trans one_le_numeral one_le_power power_Suc0_right power_increasing Suc_leI zero_less_Suc)
  from Suc.prems have "10 ^ k \<le> n div 10" by (simp add: less_eq_div_iff_mult_less_eq mult.commute)
  from Suc.IH [OF this] ten show ?case by (simp add: digits_step)
qed

lemma filter_digits: "filter is_digit (digits n) = digits n"
  using digits_all [of n] by (simp add: list_all_iff)

lemma unsigned_value_digits:
  "unsigned_value (digits n) =
     (if int_max_str_digits < length (digits n) then Inl ValueError else Inr n)"
  by (simp add: unsigned_value_def parse_unsigned_digits filter_digits)

lemma digit_ascii: "is_digit c \<Longrightarrow> \<not> 128 \<le> (of_char c :: nat)"
  by (simp add: is_digit_def)

lemma str_int_ascii: "\<not> list_ex (\<lambda>c. 128 \<le> (of_char c :: nat)) (str_int N)"
  using digits_all [of "nat N"] digits_all [of "nat (- N)"]
  by (auto simp: str_int_def list_ex_iff list_all_iff dest: digit_ascii)

lemma py_int_str_int:
  "py_int (str_int N) =
     (if int_max_str_digits < length (digits (nat \<bar>N\<bar>)) then Inl ValueError else Inr N)"
proof (cases "N < 0")
  case True
  have minus: "\<not> is_space (CHR ''-'')" by (simp add: is_space_def)
  have "\<not> is_space (last (CHR ''-'' # digits (nat (- N))))"
    using digits_hd_last [of "nat (- N)"] digits_nonempty [of "nat (- N)"]
    by (simp add: digit_not_space)
  with minus have "strip (CHR ''-'' # digits (nat (- N))) = CHR ''-'' # digits (nat (- N))"
    by (intro strip_id) simp_all
  moreover from True have "str_int N = CHR ''-'' # digits (nat (- N))" by (simp add: str_int_def)
  moreover from True have "nat \<bar>N\<bar> = nat (- N)" by simp
  ultimately show ?thesis
    using str_int_ascii [of N] True by (simp add: py_int_def unsigned_value_digits)
next
  case False
  obtain c cs where d: "digits (nat N) = c # cs"
    using digits_nonempty [of "nat N"] by (cases "digits (nat N)") auto
  have c: "is_digit c" using digits_hd_last [of "nat N"] d by simp
  have s: "strip (digits (nat N)) = digits (nat N)"
    using digits_hd_last [of "nat N"] digits_nonempty [of "nat N"]
    by (intro strip_id) (auto simp: digit_not_space)
  from False have si: "str_int N = digits (nat N)" by (simp add: str_int_def)
  from False have ab: "nat \<bar>N\<bar> = nat N" by simp
  have "py_int (digits (nat N)) = (case unsigned_value (digits (nat N)) of Inl e \<Rightarrow> Inl e | Inr n \<Rightarrow> Inr (int n))"
    using str_int_ascii [of N] digit_not_slash [OF c]
    unfolding py_int_def s si by (simp add: d)
  with False show ?thesis by (simp add: si ab unsigned_value_digits)
qed

lemma str_int_segment: "str_int N \<noteq> [] \<and> CHR ''/'' \<notin> set (str_int N)"
  using digits_all [of "nat N"] digits_all [of "nat (- N)"] digits_nonempty
  by (auto simp: str_int_def list_all_iff dest: digit_not_slash)

lemma id_for_uri_numeral:
  assumes "sl = replicate k (CHR ''/'')"
  shows "id_for_uri (pre @ ''/'' @ str_int N @ sl) = py_int (str_int N)"
proof -
  have "filter (\<lambda>s. s \<noteq> []) (split (CHR ''/'') (pre @ CHR ''/'' # str_int N @ replicate k (CHR ''/'')))
      = filter (\<lambda>s. s \<noteq> []) (split (CHR ''/'') pre) @ [str_int N]"
    using str_int_segment [of N] by (intro last_segment) auto
  then show ?thesis by (simp add: id_for_uri_def assms)
qed

lemma short_numeral:
  assumes "\<bar>N\<bar> < 10 ^ int_max_str_digits"
  shows "\<not> int_max_str_digits < length (digits (nat \<bar>N\<bar>))"
proof -
  from assms have "int (nat \<bar>N\<bar>) < int (10 ^ int_max_str_digits)" by simp
  then have "nat \<bar>N\<bar> < 10 ^ int_max_str_digits" by (simp only: of_nat_less_iff)
  moreover have "0 < int_max_str_digits" by (simp add: int_max_str_digits_def)
  ultimately have "length (digits (nat \<bar>N\<bar>)) \<le> int_max_str_digits" by (intro digits_length_le)
  then show ?thesis by simp
qed

lemma long_numeral:
  assumes "10 ^ int_max_str_digits \<le> \<bar>N\<bar>"
  shows "int_max_str_digits < length (digits (nat \<bar>N\<bar>))"
proof -
  from assms have "int (10 ^ int_max_str_digits) \<le> int (nat \<bar>N\<bar>)" by simp
  then have "10 ^ int_max_str_digits \<le> nat \<bar>N\<bar>" by (simp only: of_nat_le_iff)
  then show ?thesis by (rule digits_length_gt)
qed

lemma id_for_uri_long_numeral:
  assumes "10 ^ int_max_str_digits \<le> \<bar>N\<bar>" and "sl = replicate k (CHR ''/'')"
  shows "id_for_uri (pre @ ''/'' @ str_int N @ sl) = Inl ValueError"
  using long_numeral [OF assms(1)]
  by (simp only: id_for_uri_numeral [OF assms(2)] py_int_str_int if_True)

text \<open>
  Claim C3, as the code has it. For a locator that ends in a slash, the decimal numeral of
  an integer \<open>N\<close> and any number of slashes (none included), \<open>id_for_uri\<close> returns
  \<open>N\<close>, provided the numeral has no more digits than \<^verbatim>\<open>int()\<close> converts, which
  is 4300: \<open>\<bar>N\<bar> < 10 ^ 4300\<close>. What comes before is arbitrary, empty path segments
  included: only the last non-empty segment is read.
\<close>

theorem id_for_uri_trailing_id:
  assumes "\<bar>N\<bar> < 10 ^ int_max_str_digits"
  shows "id_for_uri (pre @ ''/'' @ str_int N @ replicate k (CHR ''/'')) = Inr N"
  using short_numeral [OF assms]
  by (simp only: id_for_uri_numeral [OF refl] py_int_str_int if_False)

theorem id_for_uri_trailing_id_witness:
  "id_for_uri ''http://example.com/api/forecast/71/'' = Inr 71
   \<and> id_for_uri ''http://example.com/api//forecast/71'' = Inr 71"
proof -
  have numeral: "str_int 71 = ''71''" by code_simp
  have "(10::int) ^ 2 \<le> 10 ^ int_max_str_digits"
    by (rule power_increasing) (simp_all add: int_max_str_digits_def)
  then have small: "\<bar>71::int\<bar> < 10 ^ int_max_str_digits" by simp
  from id_for_uri_trailing_id [OF small, of "''http://example.com/api/forecast''" 1]
    id_for_uri_trailing_id [OF small, of "''http://example.com/api//forecast''" 0]
  show ?thesis by (simp add: numeral)
qed

text \<open>
  Claim C3, as it is stated, is for every integer. The numeral of \<open>10 ^ 4300\<close> has 4301
  digits: \<^verbatim>\<open>int()\<close> raises ValueError for it, and so does \<open>id_for_uri\<close>.
\<close>

theorem id_for_uri_numeral_over_limit:
  "id_for_uri (''http://example.com/api/forecast'' @ ''/'' @ str_int (10 ^ 4300) @ ''/'')
     = Inl ValueError"
proof (rule id_for_uri_long_numeral [where k = 1])
  have "(10::int) ^ 4300 \<le> \<bar>10 ^ 4300\<bar>" by (rule abs_ge_self)
  then show "(10::int) ^ int_max_str_digits \<le> \<bar>10 ^ 4300\<bar>"
    by (simp only: int_max_str_digits_def)
  show "''/'' = replicate 1 (CHR ''/'')" by simp
qed

subsection \<open>The cached snapshot\<close>

lemma json_property_cached:
  "truthy (cached_json r) \<Longrightarrow> json_property r c w = (Inr (cached_json r), r, w)"
  by (simp add: json_property_def)

lemma json_property_first_access:
  assumes "cached_json r = JNull" and "session c = Some s"
    and "server w (length (sent w)) (Get (uri r) (token s))
           = \<lparr>status_code = 200, response_text = txt, json_body = Some j\<rparr>"
  shows "json_property r c w = (Inr j, r\<lparr>cached_json := j\<rparr>, w\<lparr>sent := sent w @ [Get (uri r) (token s)]\<rparr>)"
  using assms by (simp add: json_property_def refresh_def json_for_uri_def send_def response_json_def)

lemma json_property_fetches_once:
  assumes "cached_json r = JNull" and "session c = Some s"
    and "server w (length (sent w)) (Get (uri r) (token s))
           = \<lparr>status_code = 200, response_text = txt, json_body = Some j\<rparr>"
    and "truthy j"
  shows "json_property r c w
           = (Inr j, r\<lparr>cached_json := j\<rparr>, w\<lparr>sent := sent w @ [Get (uri r) (token s)]\<rparr>)"
    and "json_property (r\<lparr>cached_json := j\<rparr>) c w' = (Inr j, r\<lparr>cached_json := j\<rparr>, w')"
  using assms by (simp_all add: json_property_first_access json_property_cached)

text \<open>
  Claim C4 holds when the fetched snapshot is a true value (\<open>json_property_fetches_once\<close>).
  The property tests the truth value of the cached snapshot, not whether there is one:
  when the server answers the first access with the empty object, the second access sends
  a second request.
\<close>

theorem empty_snapshot_is_fetched_again:
  "json_property
     \<lparr>uri = ''https://zoltardata.com/api/project/3/'', cached_json = JNull\<rparr>
     \<lparr>host = ''https://zoltardata.com'', username = JStr ''u'', password = JStr ''p'',
      session = Some \<lparr>token = JStr ''abc''\<rparr>\<rparr>
     \<lparr>sent = [], server = (\<lambda>n req. \<lparr>status_code = 200, response_text = ''{}'',
                                      json_body = Some (JDict [])\<rparr>)\<rparr>
   = (Inr (JDict []),
      \<lparr>uri = ''https://zoltardata.com/api/project/3/'', cached_json = JDict []\<rparr>,
      \<lparr>sent = [Get ''https://zoltardata.com/api/project/3/'' (JStr ''abc'')],
       server = (\<lambda>n req. \<lparr>status_code = 200, response_text = ''{}'',
                                      json_body = Some (JDict [])\<rparr>)\<rparr>)
   \<and> json_property
     \<lparr>uri = ''https://zoltardata.com/api/project/3/'', cached_json = JDict []\<rparr>
     \<lparr>host = ''https://zoltardata.com'', username = JStr ''u'', password = JStr ''p'',
      session = Some \<lparr>token = JStr ''abc''\<rparr>\<rparr>
     \<lparr>sent = [Get ''https://zoltardata.com/api/project/3/'' (JStr ''abc'')],
      server = (\<lambda>n req. \<lparr>status_code = 200, response_text = ''{}'',
                                      json_body = Some (JDict [])\<rparr>)\<rparr>
   = (Inr (JDict []),
      \<lparr>uri = ''https://zoltardata.com/api/project/3/'', cached_json = JDict []\<rparr>,
      \<lparr>sent = [Get ''https://zoltardata.com/api/project/3/'' (JStr ''abc''),
               Get ''https://zoltardata.com/api/project/3/'' (JStr ''abc'')],
       server = (\<lambda>n req. \<lparr>status_code = 200, response_text = ''{}'',
                                      json_body = Some (JDict [])\<rparr>)\<rparr>)"
  by (simp add: json_property_def refresh_def json_for_uri_def send_def response_json_def)

lemma refresh_cases:
  "(\<exists>e w'. refresh r c w = (Inl e, r, w')) \<or>
   (\<exists>j w'. refresh r c w = (Inr j, r\<lparr>cached_json := j\<rparr>, w'))"
  by (cases "json_for_uri c (uri r) w" rule: prod.exhaust; cases "fst (json_for_uri c (uri r) w)")
     (auto simp: refresh_def)

text \<open>
  Claim C6. When the fetch of \<open>refresh\<close> fails, the resource is what it was, cached
  snapshot included; the same holds for a read of the \<open>json\<close> property that fetches.
\<close>

theorem failed_fetch_keeps_snapshot:
  "(fst (refresh r c w) = Inl e \<longrightarrow> fst (snd (refresh r c w)) = r) \<and>
   (fst (json_property r c w) = Inl e \<longrightarrow> fst (snd (json_property r c w)) = r)"
  using refresh_cases [of r c w] by (auto simp: json_property_def)

theorem failed_fetch_keeps_snapshot_witness:
  "refresh \<lparr>uri = ''https://zoltardata.com/api/project/3/'',
             cached_json = JDict [(''id'', JInt 3), (''name'', JStr ''flu'')]\<rparr>
     \<lparr>host = ''https://zoltardata.com'', username = JStr ''u'', password = JStr ''p'',
      session = Some \<lparr>token = JStr ''abc''\<rparr>\<rparr>
     \<lparr>sent = [], server = (\<lambda>n req. \<lparr>status_code = 503, response_text = ''unavailable'',
                                      json_body = None\<rparr>)\<rparr>
   = (Inl (RuntimeError (JsonStatusNot200 503 ''unavailable'')),
      \<lparr>uri = ''https://zoltardata.com/api/project/3/'',
       cached_json = JDict [(''id'', JInt 3), (''name'', JStr ''flu'')]\<rparr>,
      \<lparr>sent = [Get ''https://zoltardata.com/api/project/3/'' (JStr ''abc'')],
       server = (\<lambda>n req. \<lparr>status_code = 503, response_text = ''unavailable'',
                                      json_body = None\<rparr>)\<rparr>)"
  (is "refresh ?r ?c ?w = (?err, ?r, ?w')")
proof -
  have err: "fst (refresh ?r ?c ?w) = ?err"
    by (simp add: refresh_def json_for_uri_def send_def)
  have net: "snd (snd (refresh ?r ?c ?w)) = ?w'"
    by (simp add: refresh_def json_for_uri_def send_def)
  from failed_fetch_keeps_snapshot [of ?r ?c ?w "RuntimeError (JsonStatusNot200 503 ''unavailable'')"] err
  have "fst (snd (refresh ?r ?c ?w)) = ?r" by blast
  with err net show ?thesis by (simp only: prod_eq_iff fst_conv snd_conv simp_thms)
qed

subsection \<open>Project.create\_model\<close>

text \<open>
  Claim C5. When the key set of the model\_config is not the expected set of six keys,
  \<open>create_model\<close> returns the RuntimeError of the validation, and the transport is the
  one it was given: no request was sent.
\<close>

theorem create_model_wrong_keys:
  assumes "fst ` set model_config \<noteq> expected_keys"
  shows "create_model project c model_config w
           = (Inl (RuntimeError (WrongKeys expected_keys (fst ` set model_config))), w)"
  using assms by (simp add: create_model_def)

theorem create_model_wrong_keys_witness:
  "create_model \<lparr>uri = ''https://zoltardata.com/api/project/3/'', cached_json = JNull\<rparr>
     \<lparr>host = ''https://zoltardata.com'', username = JStr ''u'', password = JStr ''p'',
      session = Some \<lparr>token = JStr ''abc''\<rparr>\<rparr>
     [(''name'', JStr ''m''), (''abbreviation'', JStr ''m''), (''team_name'', JStr ''t''),
      (''description'', JStr ''d''), (''home_url'', JStr ''http://example.com'')]
     \<lparr>sent = [], server = (\<lambda>n req. \<lparr>status_code = 200, response_text = '''',
                                      json_body = Some (JDict [(''id'', JInt 7)])\<rparr>)\<rparr>
   = (Inl (RuntimeError (WrongKeys expected_keys
        {''name'', ''abbreviation'', ''team_name'', ''description'', ''home_url''})),
      \<lparr>sent = [], server = (\<lambda>n req. \<lparr>status_code = 200, response_text = '''',
                                      json_body = Some (JDict [(''id'', JInt 7)])\<rparr>)\<rparr>)"
proof -
  have "''aux_data_url'' \<in> expected_keys" by (simp add: expected_keys_def)
  moreover have "''aux_data_url'' \<notin> fst ` set [(''name'', JStr ''m''), (''abbreviation'', JStr ''m''), (''team_name'', JStr ''t''),
      (''description'', JStr ''d''), (''home_url'', JStr ''http://example.com'')]" by simp
  ultimately have "fst ` set [(''name'', JStr ''m''), (''abbreviation'', JStr ''m''), (''team_name'', JStr ''t''),
      (''description'', JStr ''d''), (''home_url'', JStr ''http://example.com'')] \<noteq> expected_keys"
    by blast
  from create_model_wrong_keys [OF this] show ?thesis by simp
qed

subsection \<open>Sessions\<close>

text \<open>
  Claim C7, as the code has it. \<open>is_token_expired\<close> is true of every session. So, on a
  connection with a session, \<open>re_authenticate_if_necessary\<close> is \<open>authenticate\<close> with
  the stored credentials; when the server answers the token request with status 200 and a
  token, the session of the connection is replaced by one with that token.
\<close>

theorem always_expired_reauthenticates:
  "is_token_expired s \<and>
   (session c = Some s \<longrightarrow>
      re_authenticate_if_necessary c w = authenticate c (username c) (password c) w) \<and>
   (session c = Some s \<longrightarrow>
      server w (length (sent w))
        (PostTokenAuth (host c @ ''/api-token-auth/'') (username c) (password c))
        = \<lparr>status_code = 200, response_text = txt, json_body = Some (JDict body)\<rparr> \<longrightarrow>
      map_of body ''token'' = Some t \<longrightarrow>
      re_authenticate_if_necessary c w
        = (Inr (), c\<lparr>session := Some \<lparr>token = t\<rparr>\<rparr>,
           w\<lparr>sent := sent w @
             [PostTokenAuth (host c @ ''/api-token-auth/'') (username c) (password c)]\<rparr>))"
  by (simp add: is_token_expired_def re_authenticate_if_necessary_def authenticate_def
      ZoltarSession_init_def get_token_def send_def response_json_def bind_simps)

theorem always_expired_reauthenticates_witness:
  "re_authenticate_if_necessary
     \<lparr>host = ''https://zoltardata.com'', username = JStr ''u'', password = JStr ''p'',
      session = Some \<lparr>token = JStr ''old''\<rparr>\<rparr>
     \<lparr>sent = [], server = (\<lambda>n req. \<lparr>status_code = 200, response_text = '''',
                                      json_body = Some (JDict [(''token'', JStr ''new'')])\<rparr>)\<rparr>
   = (Inr (),
      \<lparr>host = ''https://zoltardata.com'', username = JStr ''u'', password = JStr ''p'',
       session = Some \<lparr>token = JStr ''new''\<rparr>\<rparr>,
      \<lparr>sent = [PostTokenAuth ''https://zoltardata.com/api-token-auth/'' (JStr ''u'') (JStr ''p'')],
       server = (\<lambda>n req. \<lparr>status_code = 200, response_text = '''',
                                      json_body = Some (JDict [(''token'', JStr ''new'')])\<rparr>)\<rparr>)"
  (is "re_authenticate_if_necessary ?c ?w = _")
proof -
  have h1: "session ?c = Some \<lparr>token = JStr ''old''\<rparr>" by simp
  have h2: "server ?w (length (sent ?w))
        (PostTokenAuth (host ?c @ ''/api-token-auth/'') (username ?c) (password ?c))
        = \<lparr>status_code = 200, response_text = '''',
           json_body = Some (JDict [(''token'', JStr ''new'')])\<rparr>" by simp
  have h3: "map_of [(''token'', JStr ''new'')] ''token'' = Some (JStr ''new'')" by simp
  from always_expired_reauthenticates [of "\<lparr>token = JStr ''old''\<rparr>" ?c ?w "''''"
      "[(''token'', JStr ''new'')]" "JStr ''new''"] h1 h2 h3
  have "re_authenticate_if_necessary ?c ?w
        = (Inr (), ?c\<lparr>session := Some \<lparr>token = JStr ''new''\<rparr>\<rparr>,
           ?w\<lparr>sent := sent ?w @
             [PostTokenAuth (host ?c @ ''/api-token-auth/'') (username ?c) (password ?c)]\<rparr>)"
    by blast
  then show ?thesis by simp
qed

text \<open>
  Claim C7, as it is stated, has every call replace the session. When the server answers
  the token request with status 401, \<open>authenticate\<close> raises before the session is
  assigned: the call ends in the RuntimeError of the token request, and the connection
  keeps the session and the token it had.
\<close>

theorem rejected_exchange_keeps_session:
  "re_authenticate_if_necessary
     \<lparr>host = ''https://zoltardata.com'', username = JStr ''u'', password = JStr ''p'',
      session = Some \<lparr>token = JStr ''old''\<rparr>\<rparr>
     \<lparr>sent = [], server = (\<lambda>n req. \<lparr>status_code = 401, response_text = ''denied'',
                                      json_body = None\<rparr>)\<rparr>
   = (Inl (RuntimeError (TokenStatusNot200 401 ''denied'')),
      \<lparr>host = ''https://zoltardata.com'', username = JStr ''u'', password = JStr ''p'',
       session = Some \<lparr>token = JStr ''old''\<rparr>\<rparr>,
      \<lparr>sent = [PostTokenAuth ''https://zoltardata.com/api-token-auth/'' (JStr ''u'') (JStr ''p'')],
       server = (\<lambda>n req. \<lparr>status_code = 401, response_text = ''denied'',
                                      json_body = None\<rparr>)\<rparr>)"
  by (simp add: re_authenticate_if_necessary_def is_token_expired_def authenticate_def
      ZoltarSession_init_def get_token_def send_def)

subsection \<open>UploadFileJob.status\_as\_str\<close>

text \<open>
  Claim C8. When the snapshot of the job has the integer \<open>n\<close> as its status,
  \<open>status_as_str\<close> returns the name of \<open>n\<close> for 0 to 5, six different names, and
  for any other integer the KeyError of the failed lookup.
\<close>

theorem status_as_str_names:
  assumes "json_property r c w = (Inr (JDict snapshot), r', w')"
    and "map_of snapshot ''status'' = Some (JInt n)"
  shows "status_as_str r c w =
     ((if n = 0 then Inr ''PENDING''
       else if n = 1 then Inr ''CLOUD_FILE_UPLOADED''
       else if n = 2 then Inr ''QUEUED''
       else if n = 3 then Inr ''CLOUD_FILE_DOWNLOADED''
       else if n = 4 then Inr ''SUCCESS''
       else if n = 5 then Inr ''FAILED''
       else Inl (KeyError (JInt n))), r', w')"
  using assms by (simp add: status_as_str_def bind_simps STATUS_ID_TO_STR_def)

theorem status_as_str_names_witness:
  "status_as_str
     \<lparr>uri = ''https://zoltardata.com/api/uploadfilejob/2/'',
      cached_json = JDict [(''id'', JInt 2), (''status'', JInt 4)]\<rparr>
     \<lparr>host = ''https://zoltardata.com'', username = JStr ''u'', password = JStr ''p'',
      session = Some \<lparr>token = JStr ''abc''\<rparr>\<rparr>
     \<lparr>sent = [], server = (\<lambda>n req. \<lparr>status_code = 200, response_text = '''',
                                      json_body = Some (JDict [(''status'', JInt 0)])\<rparr>)\<rparr>
   = (Inr ''SUCCESS'',
      \<lparr>uri = ''https://zoltardata.com/api/uploadfilejob/2/'',
       cached_json = JDict [(''id'', JInt 2), (''status'', JInt 4)]\<rparr>,
      \<lparr>sent = [], server = (\<lambda>n req. \<lparr>status_code = 200, response_text = '''',
                                      json_body = Some (JDict [(''status'', JInt 0)])\<rparr>)\<rparr>)
   \<and> status_as_str
     \<lparr>uri = ''https://zoltardata.com/api/uploadfilejob/2/'',
      cached_json = JDict [(''id'', JInt 2), (''status'', JInt 6)]\<rparr>
     \<lparr>host = ''https://zoltardata.com'', username = JStr ''u'', password = JStr ''p'',
      session = Some \<lparr>token = JStr ''abc''\<rparr>\<rparr>
     \<lparr>sent = [], server = (\<lambda>n req. \<lparr>status_code = 200, response_text = '''',
                                      json_body = Some (JDict [(''status'', JInt 0)])\<rparr>)\<rparr>
   = (Inl (KeyError (JInt 6)),
      \<lparr>uri = ''https://zoltardata.com/api/uploadfilejob/2/'',
       cached_json = JDict [(''id'', JInt 2), (''status'', JInt 6)]\<rparr>,
      \<lparr>sent = [], server = (\<lambda>n req. \<lparr>status_code = 200, response_text = '''',
                                      json_body = Some (JDict [(''status'', JInt 0)])\<rparr>)\<rparr>)"
  (is "status_as_str ?r4 ?c ?w = _ \<and> status_as_str ?r6 ?c ?w = _")
proof -
  have j4: "json_property ?r4 ?c ?w = (Inr (JDict [(''id'', JInt 2), (''status'', JInt 4)]), ?r4, ?w)"
    by (simp add: json_property_def)
  have j6: "json_property ?r6 ?c ?w = (Inr (JDict [(''id'', JInt 2), (''status'', JInt 6)]), ?r6, ?w)"
    by (simp add: json_property_def)
  have s4: "map_of [(''id'', JInt 2), (''status'', JInt 4)] ''status'' = Some (JInt 4)" by simp
  have s6: "map_of [(''id'', JInt 2), (''status'', JInt 6)] ''status'' = Some (JInt 6)" by simp
  from status_as_str_names [OF j4 s4] status_as_str_names [OF j6 s6] show ?thesis by simp
qed

end
